theory Spec2Isabelle
  imports Main "HOL-Library.Word"
begin

section \<open>Values and protocol constants\<close>

text \<open>
  The two extensions (\<open>scratch3_apitorq/index.js\<close> and \<open>scratch3_apitorx/index.js\<close>)
  are the same program text up to the constants, the third motor and the second
  infrared sensor of the X robot. One model covers both; the class of the peripheral
  object is a tag of the state.
\<close>

datatype variant = ApitorQ | ApitorX

text \<open>
  The JavaScript values that reach the peripheral class: numbers (the block layer hands
  over integers) and \<open>undefined\<close> (a parameter the caller left out, an index past the
  end of a typed array).
\<close>

datatype jsval = JNum int | JUndefined

text \<open>Loose equality \<open>==\<close> on these values: \<open>undefined\<close> equals only itself.\<close>

fun js_eq :: "jsval \<Rightarrow> jsval \<Rightarrow> bool" where
  "js_eq (JNum a) (JNum b) = (a = b)"
| "js_eq JUndefined JUndefined = True"
| "js_eq _ _ = False"

definition UUID_SERVICE :: string where
  "UUID_SERVICE = ''0000f0ff-0000-1000-8000-00805f9b34fb''"

definition UUID_CHARACTERISTIC_WRITE :: string where
  "UUID_CHARACTERISTIC_WRITE = ''0000f001-0000-1000-8000-00805f9b34fb''"

definition UUID_CHARACTERISTIC_READ_NOTIFY :: string where
  "UUID_CHARACTERISTIC_READ_NOTIFY = ''0000f002-0000-1000-8000-00805f9b34fb''"

definition LedID_L1 :: int where "LedID_L1 = 0x01"
definition LedID_L2 :: int where "LedID_L2 = 0x02"
definition LedID_ALL :: int where "LedID_ALL = 0x04"
definition LedID_ALLSTOP :: int where "LedID_ALLSTOP = 0x03"

definition LedColorID_OFF :: int where "LedColorID_OFF = 0x00"
definition LedColorID_RED :: int where "LedColorID_RED = 0x01"

definition MotorID_M1 :: int where "MotorID_M1 = 0x06"
definition MotorID_M2 :: int where "MotorID_M2 = 0x07"
definition MotorID_M3 :: int where "MotorID_M3 = 0x08"
definition MotorID_ALL :: int where "MotorID_ALL = 0x09"
definition MotorID_ALLSTOP :: int where "MotorID_ALLSTOP = 0x10"

definition MotorDirectionID_D1 :: int where "MotorDirectionID_D1 = 0x01"
definition MotorDirectionID_D2 :: int where "MotorDirectionID_D2 = 0x02"
definition MotorDirectionID_STOP :: int where "MotorDirectionID_STOP = 0x00"

definition BLESendRateMax :: nat where "BLESendRateMax = 20"

section \<open>Command frames\<close>

text \<open>
  \<open>setLED (id, color, offTime, onTime)\<close>: the array \<open>cmd\<close> it builds. The parameter
  list is the source's: the third parameter is \<open>offTime\<close>, the fourth \<open>onTime\<close>, and
  the array holds \<open>onTime\<close> before \<open>offTime\<close>.
\<close>

definition setLED_cmd :: "int \<Rightarrow> int \<Rightarrow> jsval \<Rightarrow> jsval \<Rightarrow> jsval list" where
  "setLED_cmd id0 color offTime onTime =
     (let id1 = (if color = 0 \<and> id0 = LedID_ALL then LedID_ALLSTOP else id0)
      in [JNum 0x55, JNum 0xaa, JNum 0x04, JNum id1, JNum color, onTime, offTime])"

text \<open>
  \<open>setMotor (id, speed)\<close>: the array \<open>cmd\<close> it builds. The three assignments to
  \<open>speed\<close> and \<open>id\<close> are the three bindings below, in the source's order
  (\<open>id0\<close> is the parameter \<open>id\<close>, \<open>id1\<close> its value after the reassignment).
\<close>

definition setMotor_cmd :: "int \<Rightarrow> int \<Rightarrow> jsval list" where
  "setMotor_cmd id0 speed =
     (let (direction, speed1) =
            (if speed > 0 then (MotorDirectionID_D1, speed)
             else if speed = 0 then (MotorDirectionID_STOP, speed)
             else (MotorDirectionID_D2, - speed));
          speed2 = (if direction = MotorDirectionID_STOP then 0 else speed1);
          id1 = (if speed2 = 0 \<and> id0 = MotorID_ALL then MotorID_ALLSTOP else id0)
      in [JNum 0x55, JNum 0xaa, JNum 0x03, JNum id1, JNum direction, JNum speed2])"

section \<open>Base64 conversion of frames\<close>

text \<open>
  Modelled from the spec: \<open>Base64Util\<close> (\<open>util/base64-util.js\<close>) is not among the
  source files. The spec names only the transport's \<open>write(..., bytes, encoding)\<close> and
  the opaque password bytes, so the two conversions are modelled as what the platform
  functions behind them compute: \<open>base64ToUint8Array\<close> is \<open>atob\<close> followed by a copy
  of the character codes into a \<open>Uint8Array\<close>, \<open>uint8ArrayToBase64\<close> is
  \<open>btoa (String.fromCharCode.apply (null, array))\<close>. \<open>None\<close> stands for the
  \<open>InvalidCharacterError\<close> the browser raises. The comments beside the two password
  literals of the source give their decoded bytes in hexadecimal; the model reproduces
  them (lemma \<open>password_decodes\<close>).
\<close>

definition b64_value :: "char \<Rightarrow> nat option" where
  "b64_value c =
     (let n = (of_char c :: nat) in
      if 65 \<le> n \<and> n \<le> 90 then Some (n - 65)
      else if 97 \<le> n \<and> n \<le> 122 then Some (n - 71)
      else if 48 \<le> n \<and> n \<le> 57 then Some (n + 4)
      else if n = 43 then Some 62
      else if n = 47 then Some 63
      else None)"

definition b64_char :: "nat \<Rightarrow> char" where
  "b64_char v =
     (if v < 26 then char_of (v + 65)
      else if v < 52 then char_of (v + 71)
      else if v < 62 then char_of (v - 4)
      else if v = 62 then CHR ''+''
      else CHR ''/'')"

definition is_ascii_whitespace :: "char \<Rightarrow> bool" where
  "is_ascii_whitespace c = ((of_char c :: nat) \<in> {9, 10, 12, 13, 32})"

definition strip_padding :: "string \<Rightarrow> string" where
  "strip_padding s =
     (if length s mod 4 = 0 \<and> s \<noteq> [] \<and> last s = CHR ''='' then
        (if butlast s \<noteq> [] \<and> last (butlast s) = CHR ''='' then butlast (butlast s)
         else butlast s)
      else s)"

fun b64_bytes :: "nat list \<Rightarrow> 8 word list" where
  "b64_bytes (a # b # c # d # rest) =
     of_nat (a * 4 + b div 16) # of_nat ((b mod 16) * 16 + c div 4) #
     of_nat ((c mod 4) * 64 + d) # b64_bytes rest"
| "b64_bytes [a, b, c] = [of_nat (a * 4 + b div 16), of_nat ((b mod 16) * 16 + c div 4)]"
| "b64_bytes [a, b] = [of_nat (a * 4 + b div 16)]"
| "b64_bytes _ = []"

definition base64ToUint8Array :: "string \<Rightarrow> 8 word list option" where
  "base64ToUint8Array base64 =
     (let s = strip_padding (filter (\<lambda>c. \<not> is_ascii_whitespace c) base64) in
      if length s mod 4 = 1 then None
      else map_option b64_bytes (those (map b64_value s)))"

text \<open>\<open>ToUint16\<close>, which \<open>String.fromCharCode\<close> applies to each element.\<close>

fun ToUint16 :: "jsval \<Rightarrow> nat" where
  "ToUint16 (JNum n) = nat (n mod 65536)"
| "ToUint16 JUndefined = 0"

text \<open>
  \<open>btoa\<close> on a string of character codes below 256: the six-bit groups of the bytes,
  their characters, and the padding that fills the last group of four.
\<close>

fun b64_sextets :: "nat list \<Rightarrow> nat list" where
  "b64_sextets (a # b # c # rest) =
     (a div 4) # ((a mod 4) * 16 + b div 16) # ((b mod 16) * 4 + c div 64) # (c mod 64) #
     b64_sextets rest"
| "b64_sextets [a, b] = [a div 4, (a mod 4) * 16 + b div 16, (b mod 16) * 4]"
| "b64_sextets [a] = [a div 4, (a mod 4) * 16]"
| "b64_sextets [] = []"

definition b64_padding :: "nat \<Rightarrow> string" where
  "b64_padding n = (if n mod 3 = 1 then ''=='' else if n mod 3 = 2 then ''='' else [])"

definition btoa :: "nat list \<Rightarrow> string" where
  "btoa codes = map b64_char (b64_sextets codes) @ b64_padding (length codes)"

definition uint8ArrayToBase64 :: "jsval list \<Rightarrow> string option" where
  "uint8ArrayToBase64 array =
     (let codes = map ToUint16 array in
      if list_ex (\<lambda>n. n > 255) codes then None else Some (btoa codes))"

text \<open>A \<open>Uint8Array\<close> indexed as the source does: past the end the value is \<open>undefined\<close>.\<close>

definition u8_get :: "8 word list \<Rightarrow> nat \<Rightarrow> jsval" where
  "u8_get data i = (if i < length data then JNum (uint (data ! i)) else JUndefined)"

text \<open>The elements of a \<open>Uint8Array\<close> as the numbers \<open>String.fromCharCode\<close> receives.\<close>

definition u8_values :: "8 word list \<Rightarrow> jsval list" where
  "u8_values data = map (\<lambda>b. JNum (uint b)) data"

section \<open>Rate limiter\<close>

text \<open>
  Modelled from the spec: \<open>RateLimiter\<close> (\<open>util/rateLimiter.js\<close>) is not among the
  source files; the source only constructs it with \<open>BLESendRateMax\<close> and calls
  \<open>okayToSend\<close>. The spec's words: the state is "a count of sends within the current
  window plus the window's start time; mutated on every permitted send, reset when the
  window elapses", and \<open>okayToSend\<close> "returns true and increments the window counter
  if below the ceiling (20 sends per rolling 1-second window); otherwise returns false
  with no side effect". Time is in milliseconds; \<open>now\<close> is the reading of the clock at
  the call.
\<close>

record RateLimiter =
  maxRate :: nat
  sendCount :: nat
  windowStart :: nat

definition new_RateLimiter :: "nat \<Rightarrow> nat \<Rightarrow> RateLimiter" where
  "new_RateLimiter rate now = \<lparr>maxRate = rate, sendCount = 0, windowStart = now\<rparr>"

definition okayToSend :: "nat \<Rightarrow> RateLimiter \<Rightarrow> bool \<times> RateLimiter" where
  "okayToSend now l =
     (let l1 = (if windowStart l + 1000 \<le> now then l\<lparr>sendCount := 0, windowStart := now\<rparr>
                else l)
      in if sendCount l1 < maxRate l1 then (True, l1\<lparr>sendCount := sendCount l1 + 1\<rparr>)
         else (False, l1))"

text \<open>A run of calls, one per clock reading, with the answers in order.\<close>

fun okayToSend_calls :: "nat list \<Rightarrow> RateLimiter \<Rightarrow> bool list \<times> RateLimiter" where
  "okayToSend_calls [] l = ([], l)"
| "okayToSend_calls (t # ts) l =
     (let (ok, l1) = okayToSend t l; (oks, l2) = okayToSend_calls ts l1 in (ok # oks, l2))"

section \<open>Transport and peripheral state\<close>

text \<open>
  Modelled from the spec: \<open>BLE\<close> (\<open>io/ble.js\<close>) is not among the source files. Section 6
  of the spec lists what the transport supplies: \<open>isConnected\<close>, \<open>disconnect\<close>,
  \<open>write (serviceId, characteristicId, bytes, encoding)\<close> and
  \<open>subscribe (serviceId, characteristicId, onMessage)\<close>. The model keeps the link state,
  the writes handed over (service, characteristic, base64 payload) in order, and the
  subscriptions.
\<close>

record BLE =
  connected :: bool
  written :: "(string \<times> string \<times> string) list"
  notifications :: "(string \<times> string) list"

definition ble_disconnect :: "BLE \<Rightarrow> BLE" where
  "ble_disconnect b = b\<lparr>connected := False, notifications := []\<rparr>"

definition ble_write :: "string \<Rightarrow> string \<Rightarrow> string \<Rightarrow> BLE \<Rightarrow> BLE" where
  "ble_write service uuid payload b = b\<lparr>written := written b @ [(service, uuid, payload)]\<rparr>"

definition ble_startNotifications :: "string \<Rightarrow> string \<Rightarrow> BLE \<Rightarrow> BLE" where
  "ble_startNotifications service uuid b =
     b\<lparr>notifications := notifications b @ [(service, uuid)]\<rparr>"

datatype error = InvalidCharacterError | TypeError

text \<open>
  What a call returns: an already resolved promise, the promise of the transport's write,
  or the timer promise of a block.
\<close>

datatype promise = Resolved | BleWrite | Timeout nat

text \<open>
  The fields of the class \<open>ApitorQ\<close> / \<open>ApitorX\<close>. \<open>ble\<close> is \<open>this._ble\<close> (\<open>null\<close>
  until \<open>scan\<close>). \<open>sensorInfrared2\<close> exists on the X robot only; on the Q robot the
  property is never assigned. \<open>console\<close> collects the arrays printed by
  \<open>console.log ("Error: unknown message: " + data)\<close>.
\<close>

record peripheral =
  variant :: variant
  ble :: "BLE option"
  rateLimiter :: RateLimiter
  sensorColor :: jsval
  sensorInfrared1 :: jsval
  sensorInfrared2 :: jsval
  sensorPower :: jsval
  console :: "8 word list list"

text \<open>The constructor; \<open>now\<close> is the clock reading when the rate limiter is created.\<close>

definition new_peripheral :: "variant \<Rightarrow> nat \<Rightarrow> peripheral" where
  "new_peripheral v now =
     \<lparr>variant = v, ble = None, rateLimiter = new_RateLimiter BLESendRateMax now,
      sensorColor = JNum 0, sensorInfrared1 = JNum 0,
      sensorInfrared2 = (case v of ApitorQ \<Rightarrow> JUndefined | ApitorX \<Rightarrow> JNum 0),
      sensorPower = JNum 0, console = []\<rparr>"

definition reset :: "peripheral \<Rightarrow> peripheral" where
  "reset s =
     (case variant s of
        ApitorQ \<Rightarrow> s\<lparr>sensorColor := JNum 0, sensorInfrared1 := JNum 0, sensorPower := JNum 0\<rparr>
      | ApitorX \<Rightarrow> s\<lparr>sensorColor := JNum 0, sensorInfrared1 := JNum 0,
                     sensorInfrared2 := JNum 0, sensorPower := JNum 0\<rparr>)"

definition disconnect :: "peripheral \<Rightarrow> peripheral" where
  "disconnect s =
     reset (case ble s of None \<Rightarrow> s | Some b \<Rightarrow> s\<lparr>ble := Some (ble_disconnect b)\<rparr>)"

definition isConnected :: "peripheral \<Rightarrow> bool" where
  "isConnected s = (case ble s of None \<Rightarrow> False | Some b \<Rightarrow> connected b)"

text \<open>The writes handed to the transport so far.\<close>

definition transmitted :: "peripheral \<Rightarrow> (string \<times> string \<times> string) list" where
  "transmitted s = (case ble s of None \<Rightarrow> [] | Some b \<Rightarrow> written b)"

section \<open>Sending\<close>

text \<open>
  \<open>send (uuid, message, useLimiter = true)\<close>. The limiter is asked only when the
  peripheral is connected; the payload is converted before \<open>write\<close> is called, so a
  conversion error leaves the transport untouched.
\<close>

definition send ::
  "peripheral \<Rightarrow> nat \<Rightarrow> string \<Rightarrow> jsval list \<Rightarrow> bool \<Rightarrow> (error + promise) \<times> peripheral" where
  "send s now uuid message useLimiter =
     (if \<not> isConnected s then (Inr Resolved, s)
      else
        let (ok, rl) = (if useLimiter then okayToSend now (rateLimiter s)
                        else (True, rateLimiter s));
            s1 = s\<lparr>rateLimiter := rl\<rparr>
        in if \<not> ok then (Inr Resolved, s1)
           else (case uint8ArrayToBase64 message of
                   None \<Rightarrow> (Inl InvalidCharacterError, s1)
                 | Some payload \<Rightarrow>
                     (Inr BleWrite,
                      s1\<lparr>ble := map_option (ble_write UUID_SERVICE uuid payload) (ble s1)\<rparr>)))"

definition setLED ::
  "peripheral \<Rightarrow> nat \<Rightarrow> int \<Rightarrow> int \<Rightarrow> jsval \<Rightarrow> jsval \<Rightarrow> (error + promise) \<times> peripheral" where
  "setLED s now id0 color offTime onTime =
     send s now UUID_CHARACTERISTIC_WRITE (setLED_cmd id0 color offTime onTime) True"

definition setMotor ::
  "peripheral \<Rightarrow> nat \<Rightarrow> int \<Rightarrow> int \<Rightarrow> (error + promise) \<times> peripheral" where
  "setMotor s now id0 speed =
     send s now UUID_CHARACTERISTIC_WRITE (setMotor_cmd id0 speed) True"

text \<open>
  \<open>stopAll\<close>: two calls, each with its own clock reading; \<open>setLED\<close> is called with two
  arguments, so \<open>offTime\<close> and \<open>onTime\<close> are \<open>undefined\<close>.
\<close>

definition stopAll :: "peripheral \<Rightarrow> nat \<Rightarrow> nat \<Rightarrow> (error + unit) \<times> peripheral" where
  "stopAll s t1 t2 =
     (if \<not> isConnected s then (Inr (), s)
      else (case setMotor s t1 MotorID_ALL 0 of
              (Inl e, s1) \<Rightarrow> (Inl e, s1)
            | (Inr _, s1) \<Rightarrow>
                (case setLED s1 t2 LedID_ALL LedColorID_OFF JUndefined JUndefined of
                   (Inl e, s2) \<Rightarrow> (Inl e, s2)
                 | (Inr _, s2) \<Rightarrow> (Inr (), s2))))"

section \<open>Handshake and notifications\<close>

definition password_base64 :: "variant \<Rightarrow> string" where
  "password_base64 v =
     (case v of ApitorQ \<Rightarrow> ''VaoRIGR5b3pXT1BmMDUyZ1dWUDQ=''
              | ApitorX \<Rightarrow> ''VaoRIFVJTThMVnlSbnVwaXNlQnY='')"

text \<open>
  The bytes the source's comments give for the two literals:
  \<open>55aa112064796f7a574f50663035326757565034\<close> and
  \<open>55aa112055494d384c5679526e75706973654276\<close>.
\<close>

definition password_comment :: "variant \<Rightarrow> 8 word list" where
  "password_comment v =
     (case v of
        ApitorQ \<Rightarrow> [0x55, 0xaa, 0x11, 0x20, 0x64, 0x79, 0x6f, 0x7a, 0x57, 0x4f,
                    0x50, 0x66, 0x30, 0x35, 0x32, 0x67, 0x57, 0x56, 0x50, 0x34]
      | ApitorX \<Rightarrow> [0x55, 0xaa, 0x11, 0x20, 0x55, 0x49, 0x4d, 0x38, 0x4c, 0x56,
                    0x79, 0x52, 0x6e, 0x75, 0x70, 0x69, 0x73, 0x65, 0x42, 0x76])"

text \<open>\<open>_sendPassword\<close>: \<open>send\<close> is called with two arguments, so \<open>useLimiter\<close> is true.\<close>

definition sendPassword :: "peripheral \<Rightarrow> nat \<Rightarrow> (error + unit) \<times> peripheral" where
  "sendPassword s now =
     (case base64ToUint8Array (password_base64 (variant s)) of
        None \<Rightarrow> (Inl InvalidCharacterError, s)
      | Some password \<Rightarrow>
          (case send s now UUID_CHARACTERISTIC_WRITE (u8_values password) True of
             (Inl e, s1) \<Rightarrow> (Inl e, s1)
           | (Inr _, s1) \<Rightarrow> (Inr (), s1)))"

text \<open>\<open>_onConnect\<close>; with \<open>this._ble\<close> null the call of \<open>startNotifications\<close> is a TypeError.\<close>

definition onConnect :: "peripheral \<Rightarrow> nat \<Rightarrow> (error + unit) \<times> peripheral" where
  "onConnect s now =
     (case sendPassword s now of
        (Inl e, s1) \<Rightarrow> (Inl e, s1)
      | (Inr _, s1) \<Rightarrow>
          (case ble s1 of
             None \<Rightarrow> (Inl TypeError, s1)
           | Some b \<Rightarrow>
               (Inr (),
                s1\<lparr>ble := Some (ble_startNotifications UUID_SERVICE
                                   UUID_CHARACTERISTIC_READ_NOTIFY b)\<rparr>)))"

text \<open>\<open>_onMessage\<close>; the X robot also stores \<open>data[6]\<close>.\<close>

definition onMessage :: "peripheral \<Rightarrow> string \<Rightarrow> (error + unit) \<times> peripheral" where
  "onMessage s base64 =
     (case base64ToUint8Array base64 of
        None \<Rightarrow> (Inl InvalidCharacterError, s)
      | Some data \<Rightarrow>
          (if \<not> js_eq (u8_get data 0) (JNum 0x55) \<or> \<not> js_eq (u8_get data 1) (JNum 0xaa) \<or>
              \<not> js_eq (u8_get data 2) (JNum 0x05) \<or> length data \<noteq> 8
           then (Inr (), s\<lparr>console := console s @ [data]\<rparr>)
           else (case variant s of
                   ApitorQ \<Rightarrow>
                     (Inr (), s\<lparr>sensorColor := u8_get data 4, sensorInfrared1 := u8_get data 5,
                                sensorPower := u8_get data 7\<rparr>)
                 | ApitorX \<Rightarrow>
                     (Inr (), s\<lparr>sensorColor := u8_get data 4, sensorInfrared1 := u8_get data 5,
                                sensorInfrared2 := u8_get data 6,
                                sensorPower := u8_get data 7\<rparr>))))"

section \<open>Blocks\<close>

definition BLESendInterval :: nat where "BLESendInterval = 100"

text \<open>
  Modelled from the spec: \<open>MathUtil.wrapClamp\<close> (\<open>util/math-util.js\<close>) is not among the
  source files; the spec says the colour is "wrapped/clamped into the valid palette
  range [0,7] by the caller before encoding".
\<close>

definition wrapClamp :: "int \<Rightarrow> int \<Rightarrow> int \<Rightarrow> int" where
  "wrapClamp n lo hi = (let range = hi - lo + 1 in n - ((n - lo) div range) * range)"

text \<open>
  The arguments of the blink block after \<open>Cast.toNumber\<close> (not in the source files; the
  spec has the block layer pass numbers).
\<close>

record blink_args =
  LED_ID :: int
  LED_COLOR_ID :: int
  ON_TIME :: int
  OFF_TIME :: int

text \<open>
  \<open>commandSetLedBlink\<close>: \<open>ontime\<close> is passed third and \<open>offtime\<close> fourth. The promise of
  \<open>setLED\<close> is dropped; the block returns its own timer promise.
\<close>

definition commandSetLedBlink ::
  "peripheral \<Rightarrow> nat \<Rightarrow> blink_args \<Rightarrow> (error + promise) \<times> peripheral" where
  "commandSetLedBlink s now args =
     (let id0 = LED_ID args;
          color = wrapClamp (LED_COLOR_ID args) 0 7;
          ontime = ON_TIME args;
          offtime = OFF_TIME args
      in (case setLED s now id0 color (JNum ontime) (JNum offtime) of
            (Inl e, s1) \<Rightarrow> (Inl e, s1)
          | (Inr _, s1) \<Rightarrow> (Inr (Timeout BLESendInterval), s1)))"

lemmas enum_defs =
  LedID_L1_def LedID_L2_def LedID_ALL_def LedID_ALLSTOP_def
  LedColorID_OFF_def LedColorID_RED_def
  MotorID_M1_def MotorID_M2_def MotorID_M3_def MotorID_ALL_def MotorID_ALLSTOP_def
  MotorDirectionID_D1_def MotorDirectionID_D2_def MotorDirectionID_STOP_def

section \<open>Conversions of the frames of the protocol\<close>

lemma setMotor_cmd_shape:
  "setMotor_cmd id0 speed =
     [JNum 0x55, JNum 0xaa, JNum 0x03,
      JNum (if speed = 0 \<and> id0 = MotorID_ALL then MotorID_ALLSTOP else id0),
      JNum (if speed > 0 then MotorDirectionID_D1
            else if speed = 0 then MotorDirectionID_STOP else MotorDirectionID_D2),
      JNum \<bar>speed\<bar>]"
  by (simp add: setMotor_cmd_def enum_defs)

lemma password_decodes:
  "base64ToUint8Array (password_base64 v) = Some (password_comment v)"
  by (cases v)
     (simp_all add: password_base64_def password_comment_def base64ToUint8Array_def
        strip_padding_def is_ascii_whitespace_def b64_value_def)

lemma password_encodes:
  "uint8ArrayToBase64 (u8_values (password_comment v)) = Some (password_base64 v)"
  by (cases v)
     (simp_all add: uint8ArrayToBase64_def u8_values_def password_comment_def
        password_base64_def btoa_def b64_padding_def b64_char_def char_of_def bit_0)

lemma stop_motor_encodes:
  "uint8ArrayToBase64 (setMotor_cmd MotorID_ALL 0) = Some ''VaoDEAAA''"
  by (simp add: uint8ArrayToBase64_def setMotor_cmd_def enum_defs btoa_def b64_padding_def b64_char_def char_of_def bit_0)

lemma stop_led_encodes:
  "uint8ArrayToBase64 (setLED_cmd LedID_ALL LedColorID_OFF JUndefined JUndefined) =
     Some ''VaoEAwAAAA==''"
  by (simp add: uint8ArrayToBase64_def setLED_cmd_def enum_defs btoa_def b64_padding_def b64_char_def char_of_def bit_0)

lemma stop_payloads_decode:
  "base64ToUint8Array ''VaoDEAAA'' = Some [0x55, 0xaa, 0x03, 0x10, 0, 0]"
  "base64ToUint8Array ''VaoEAwAAAA=='' = Some [0x55, 0xaa, 0x04, 0x03, 0, 0, 0]"
  by (simp_all add: base64ToUint8Array_def strip_padding_def is_ascii_whitespace_def
        b64_value_def)

section \<open>The two base64 conversions agree\<close>

lemma b64_value_char: "v < 64 \<Longrightarrow> b64_value (b64_char v) = Some v"
  by (auto simp add: b64_value_def b64_char_def Let_def)

lemma b64_char_not_ws: "\<not> is_ascii_whitespace (b64_char v)"
  by (auto simp add: is_ascii_whitespace_def b64_char_def)

lemma sextets_length: "length (b64_sextets xs) = (4 * length xs + 2) div 3"
  by (induction xs rule: b64_sextets.induct) simp_all

lemma b64_value_pad: "b64_value CHR ''='' = None"
  by (simp add: b64_value_def)

lemma b64_char_not_pad: "v < 64 \<Longrightarrow> b64_char v \<noteq> CHR ''=''"
  by (metis b64_value_char b64_value_pad option.distinct(1))

lemma sextet_bounds:
  fixes a b c :: nat
  shows "a < 256 \<Longrightarrow> a div 4 < 64"
    and "b < 256 \<Longrightarrow> a mod 4 * 16 + b div 16 < 64"
    and "c < 256 \<Longrightarrow> b mod 16 * 4 + c div 64 < 64"
    and "c mod 64 < 64" and "b mod 16 * 4 < 64" and "a mod 4 * 16 < 64"
  by arith+

lemma sextets_bound: "\<forall>x\<in>set xs. x < 256 \<Longrightarrow> \<forall>v\<in>set (b64_sextets xs). v < 64"
  by (induction xs rule: b64_sextets.induct) (simp_all add: sextet_bounds)

lemma those_values: "\<forall>v\<in>set vs. v < 64 \<Longrightarrow> those (map (b64_value \<circ> b64_char) vs) = Some vs"
  by (induction vs) (simp_all add: b64_value_char)

lemma octet_joins:
  fixes a b c :: nat
  shows "b < 256 \<Longrightarrow> a div 4 * 4 + (a mod 4 * 16 + b div 16) div 16 = a"
    and "b < 256 \<Longrightarrow> c < 256 \<Longrightarrow>
         (a mod 4 * 16 + b div 16) mod 16 * 16 + (b mod 16 * 4 + c div 64) div 4 = b"
    and "c < 256 \<Longrightarrow> (b mod 16 * 4 + c div 64) mod 4 * 64 + c mod 64 = c"
    and "b < 256 \<Longrightarrow> (a mod 4 * 16 + b div 16) mod 16 * 16 + (b mod 16 * 4) div 4 = b"
    and "a div 4 * 4 + (a mod 4 * 16) div 16 = a"
  by (simp_all add: div_mult2_eq [symmetric] mod_mult2_eq)

lemma bytes_sextets: "\<forall>x\<in>set xs. x < 256 \<Longrightarrow> b64_bytes (b64_sextets xs) = map of_nat xs"
proof (induction xs rule: b64_sextets.induct)
  case (1 a b c rest)
  then have "b < 256" "c < 256" and r: "b64_bytes (b64_sextets rest) = map of_nat rest" by auto
  then show ?case
    unfolding b64_sextets.simps b64_bytes.simps by (simp only: octet_joins r list.map)
next
  case (2 a b)
  then have "b < 256" by auto
  then show ?case
    unfolding b64_sextets.simps b64_bytes.simps by (simp only: octet_joins list.map)
next
  case (3 a)
  show ?case
    unfolding b64_sextets.simps b64_bytes.simps by (simp only: octet_joins list.map)
next
  case 4
  show ?case by simp
qed

lemma sextets_length_mod:
  "length (b64_sextets xs) mod 4 \<noteq> 1"
  "length xs mod 3 = 1 \<Longrightarrow> (length (b64_sextets xs) + 2) mod 4 = 0"
  "length xs mod 3 = 2 \<Longrightarrow> (length (b64_sextets xs) + 1) mod 4 = 0"
  "length xs mod 3 = 0 \<Longrightarrow> length (b64_sextets xs) mod 4 = 0"
  "length xs mod 3 \<noteq> 0 \<Longrightarrow> 0 < length (b64_sextets xs)"
  unfolding sextets_length by presburger+

lemma body_last:
  assumes "\<forall>v\<in>set vs. v < 64" and "vs \<noteq> []"
  shows "last (map b64_char vs) \<noteq> CHR ''=''"
proof -
  have "last vs \<in> set vs" using assms(2) by simp
  then have "last vs < 64" using assms(1) by blast
  then show ?thesis using assms(2) by (simp add: last_map b64_char_not_pad)
qed

lemma strip_padding_btoa:
  assumes "\<forall>x\<in>set xs. x < 256"
  shows "strip_padding (btoa xs) = map b64_char (b64_sextets xs)"
proof -
  let ?vs = "b64_sextets xs"
  have vs: "\<forall>v\<in>set ?vs. v < 64" using assms by (rule sextets_bound)
  consider "length xs mod 3 = 0" | "length xs mod 3 = 1" | "length xs mod 3 = 2"
    by arith
  then show ?thesis
  proof cases
    case 1
    show ?thesis
    proof (cases "?vs = []")
      case True
      then show ?thesis using 1 by (simp add: btoa_def b64_padding_def strip_padding_def)
    next
      case False
      then show ?thesis
        using 1 body_last [OF vs False]
        by (simp add: btoa_def b64_padding_def strip_padding_def)
    qed
  next
    case 2
    then have "(length ?vs + 2) mod 4 = 0" by (rule sextets_length_mod)
    then show ?thesis
      using 2 by (simp add: btoa_def b64_padding_def strip_padding_def butlast_append)
  next
    case 3
    then have len: "(length ?vs + 1) mod 4 = 0" by (rule sextets_length_mod)
    have ne: "?vs \<noteq> []" using sextets_length_mod(5) [of xs] 3 by auto
    show ?thesis
      using 3 len ne body_last [OF vs ne]
      by (simp add: btoa_def b64_padding_def strip_padding_def butlast_append)
  qed
qed

lemma btoa_no_whitespace:
  "filter (\<lambda>c. \<not> is_ascii_whitespace c) (btoa xs) = btoa xs"
proof -
  have "\<not> is_ascii_whitespace CHR ''=''" by (simp add: is_ascii_whitespace_def)
  then have "\<forall>c\<in>set (btoa xs). \<not> is_ascii_whitespace c"
    by (auto simp add: btoa_def b64_padding_def b64_char_not_ws)
  then show ?thesis by simp
qed

lemma base64_roundtrip:
  assumes "\<forall>x\<in>set xs. x < 256"
  shows "base64ToUint8Array (btoa xs) = Some (map of_nat xs)"
  using assms sextets_length_mod(1) [of xs]
  by (simp add: base64ToUint8Array_def btoa_no_whitespace strip_padding_btoa
      those_values sextets_bound bytes_sextets)

text \<open>
  Every byte array is the decoding of the string the other conversion makes of it, so
  every byte sequence can reach \<open>_onMessage\<close>.
\<close>

lemma uint8Array_roundtrip:
  "uint8ArrayToBase64 (u8_values data) = Some (btoa (map unat data))"
  "base64ToUint8Array (btoa (map unat data)) = Some data"
proof -
  have byte: "unat b < 256" for b :: "8 word"
    using unsigned_less [of b, where 'a = nat] by simp
  have small: "\<forall>x\<in>set (map unat data). x < 256"
    by (simp add: byte)
  have code: "nat (uint b mod 65536) = unat b" for b :: "8 word"
  proof -
    have "uint b < 256" using uint_bounded [of b] by simp
    then have "uint b mod 65536 = uint b" by simp
    then show ?thesis by simp
  qed
  have codes: "map ToUint16 (u8_values data) = map unat data"
    by (simp add: u8_values_def code)
  show "uint8ArrayToBase64 (u8_values data) = Some (btoa (map unat data))"
    using small by (auto simp add: uint8ArrayToBase64_def codes list_ex_iff)
  show "base64ToUint8Array (btoa (map unat data)) = Some data"
    using base64_roundtrip [OF small] by (simp add: comp_def)
qed

section \<open>Properties of the rate limiter\<close>

lemma okayToSend_room:
  "sendCount l < maxRate l \<Longrightarrow> now < windowStart l + 1000 \<Longrightarrow>
   okayToSend now l = (True, l\<lparr>sendCount := sendCount l + 1\<rparr>)"
  by (simp add: okayToSend_def)

lemma okayToSend_full:
  "maxRate l \<le> sendCount l \<Longrightarrow> now < windowStart l + 1000 \<Longrightarrow> okayToSend now l = (False, l)"
  by (simp add: okayToSend_def)

lemma okayToSend_elapsed:
  "windowStart l + 1000 \<le> now \<Longrightarrow> 0 < maxRate l \<Longrightarrow>
   okayToSend now l = (True, l\<lparr>sendCount := 1, windowStart := now\<rparr>)"
  by (simp add: okayToSend_def)

lemma okayToSend_False_unchanged:
  "0 < maxRate l \<Longrightarrow> \<not> fst (okayToSend now l) \<Longrightarrow> snd (okayToSend now l) = l"
  by (auto simp add: okayToSend_def Let_def split: if_splits)

lemma okayToSend_calls_room:
  "sendCount l + length ts \<le> maxRate l \<Longrightarrow> \<forall>t\<in>set ts. t < windowStart l + 1000 \<Longrightarrow>
   okayToSend_calls ts l = (replicate (length ts) True, l\<lparr>sendCount := sendCount l + length ts\<rparr>)"
proof (induction ts arbitrary: l)
  case Nil
  then show ?case by simp
next
  case (Cons t ts)
  have step: "okayToSend t l = (True, l\<lparr>sendCount := sendCount l + 1\<rparr>)"
    using Cons.prems by (intro okayToSend_room) auto
  have "okayToSend_calls ts (l\<lparr>sendCount := sendCount l + 1\<rparr>) =
        (replicate (length ts) True,
         l\<lparr>sendCount := sendCount l + 1\<rparr>\<lparr>sendCount := sendCount (l\<lparr>sendCount := sendCount l + 1\<rparr>) + length ts\<rparr>)"
    using Cons.prems by (intro Cons.IH) auto
  with step show ?case by (simp add: add.commute add.left_commute)
qed

section \<open>Properties of sending\<close>

lemma send_not_connected:
  "\<not> isConnected s \<Longrightarrow> send s now uuid message useLimiter = (Inr Resolved, s)"
  by (simp add: send_def)

lemma send_rejected:
  "isConnected s \<Longrightarrow> \<not> fst (okayToSend now (rateLimiter s)) \<Longrightarrow>
   send s now uuid message True =
     (Inr Resolved, s\<lparr>rateLimiter := snd (okayToSend now (rateLimiter s))\<rparr>)"
  by (auto simp add: send_def Let_def split: prod.splits)

lemma send_admitted:
  "isConnected s \<Longrightarrow> fst (okayToSend now (rateLimiter s)) \<Longrightarrow>
   uint8ArrayToBase64 message = Some payload \<Longrightarrow>
   send s now uuid message True =
     (Inr BleWrite,
      s\<lparr>rateLimiter := snd (okayToSend now (rateLimiter s)),
        ble := map_option (ble_write UUID_SERVICE uuid payload) (ble s)\<rparr>)"
  by (auto simp add: send_def Let_def split: prod.splits)

lemma transmitted_rateLimiter [simp]: "transmitted (s\<lparr>rateLimiter := rl\<rparr>) = transmitted s"
  by (simp add: transmitted_def)

lemma isConnected_rateLimiter [simp]: "isConnected (s\<lparr>rateLimiter := rl\<rparr>) = isConnected s"
  by (simp add: isConnected_def)

lemma transmitted_write:
  "isConnected s \<Longrightarrow>
   transmitted (s\<lparr>ble := map_option (ble_write service uuid payload) (ble s)\<rparr>) =
     transmitted s @ [(service, uuid, payload)]"
  by (auto simp add: transmitted_def isConnected_def ble_write_def split: option.splits)

lemma isConnected_write [simp]:
  "isConnected (s\<lparr>ble := map_option (ble_write service uuid payload) (ble s)\<rparr>) = isConnected s"
  by (auto simp add: isConnected_def ble_write_def split: option.splits)

lemma send_limited_transmits:
  "transmitted (snd (send s now uuid message True)) =
     (if isConnected s \<and> fst (okayToSend now (rateLimiter s))
      then (case uint8ArrayToBase64 message of
              None \<Rightarrow> transmitted s
            | Some payload \<Rightarrow> transmitted s @ [(UUID_SERVICE, uuid, payload)])
      else transmitted s)"
  by (auto simp add: send_def Let_def transmitted_def isConnected_def ble_write_def
      split: prod.splits option.splits)

lemma send_limited_cases:
  assumes "uint8ArrayToBase64 message = Some payload"
  shows "send s now uuid message True =
     (if \<not> isConnected s then (Inr Resolved, s)
      else if fst (okayToSend now (rateLimiter s))
      then (Inr BleWrite,
            s\<lparr>rateLimiter := snd (okayToSend now (rateLimiter s)),
              ble := map_option (ble_write UUID_SERVICE uuid payload) (ble s)\<rparr>)
      else (Inr Resolved, s\<lparr>rateLimiter := snd (okayToSend now (rateLimiter s))\<rparr>))"
  using assms by (auto simp add: send_def Let_def split: prod.splits)

lemma send_limited_after:
  assumes "uint8ArrayToBase64 message = Some payload" and "isConnected s"
  shows "isConnected (snd (send s now uuid message True))"
    and "rateLimiter (snd (send s now uuid message True)) = snd (okayToSend now (rateLimiter s))"
    and "\<exists>r. fst (send s now uuid message True) = Inr r"
  using assms
  by (auto simp add: send_limited_cases isConnected_def ble_write_def split: option.splits)

lemma stopAll_connected:
  assumes "isConnected s"
  shows "stopAll s t1 t2 =
     (Inr (), snd (setLED (snd (setMotor s t1 MotorID_ALL 0)) t2 LedID_ALL LedColorID_OFF
                     JUndefined JUndefined))"
proof -
  obtain r1 s1 where m: "setMotor s t1 MotorID_ALL 0 = (Inr r1, s1)"
    using send_limited_after(3) [OF stop_motor_encodes assms, of t1 UUID_CHARACTERISTIC_WRITE]
    by (cases "setMotor s t1 MotorID_ALL 0") (auto simp add: setMotor_def)
  have c1: "isConnected s1"
    using send_limited_after(1) [OF stop_motor_encodes assms, of t1 UUID_CHARACTERISTIC_WRITE] m
    by (simp add: setMotor_def)
  obtain r2 s2 where l: "setLED s1 t2 LedID_ALL LedColorID_OFF JUndefined JUndefined = (Inr r2, s2)"
    using send_limited_after(3) [OF stop_led_encodes c1, of t2 UUID_CHARACTERISTIC_WRITE]
    by (cases "setLED s1 t2 LedID_ALL LedColorID_OFF JUndefined JUndefined")
       (auto simp add: setLED_def)
  show ?thesis
    using assms by (simp add: stopAll_def m l)
qed

lemma stopAll_transmits:
  assumes "isConnected s"
  shows "transmitted (snd (stopAll s t1 t2)) =
     transmitted s
     @ (if fst (okayToSend t1 (rateLimiter s))
        then [(UUID_SERVICE, UUID_CHARACTERISTIC_WRITE, ''VaoDEAAA'')] else [])
     @ (if fst (okayToSend t2 (snd (okayToSend t1 (rateLimiter s))))
        then [(UUID_SERVICE, UUID_CHARACTERISTIC_WRITE, ''VaoEAwAAAA=='')] else [])"
proof -
  let ?s1 = "snd (setMotor s t1 MotorID_ALL 0)"
  have c1: "isConnected ?s1"
    using send_limited_after(1) [OF stop_motor_encodes assms] by (simp add: setMotor_def)
  have l1: "rateLimiter ?s1 = snd (okayToSend t1 (rateLimiter s))"
    using send_limited_after(2) [OF stop_motor_encodes assms] by (simp add: setMotor_def)
  have t1: "transmitted ?s1 = transmitted s
     @ (if fst (okayToSend t1 (rateLimiter s))
        then [(UUID_SERVICE, UUID_CHARACTERISTIC_WRITE, ''VaoDEAAA'')] else [])"
    using assms by (simp add: setMotor_def send_limited_transmits stop_motor_encodes)
  have t2: "transmitted (snd (setLED ?s1 t2 LedID_ALL LedColorID_OFF JUndefined JUndefined)) =
     transmitted ?s1
     @ (if fst (okayToSend t2 (rateLimiter ?s1))
        then [(UUID_SERVICE, UUID_CHARACTERISTIC_WRITE, ''VaoEAwAAAA=='')] else [])"
    using c1 by (simp add: setLED_def send_limited_transmits stop_led_encodes)
  show ?thesis
    unfolding stopAll_connected [OF assms] snd_conv t2 t1 l1 by simp
qed

lemma stopAll_full_window:
  assumes "isConnected s" and "0 < maxRate (rateLimiter s)"
    and "maxRate (rateLimiter s) \<le> sendCount (rateLimiter s)"
    and "t1 < windowStart (rateLimiter s) + 1000" and "t2 < windowStart (rateLimiter s) + 1000"
  shows "stopAll s t1 t2 = (Inr (), s)"
proof -
  have f1: "okayToSend t1 (rateLimiter s) = (False, rateLimiter s)"
    using assms by (intro okayToSend_full) simp_all
  have f2: "okayToSend t2 (rateLimiter s) = (False, rateLimiter s)"
    using assms by (intro okayToSend_full) simp_all
  have m: "setMotor s t1 MotorID_ALL 0 = (Inr Resolved, s)"
    using assms(1) f1 by (simp add: setMotor_def send_limited_cases [OF stop_motor_encodes])
  have l: "setLED s t2 LedID_ALL LedColorID_OFF JUndefined JUndefined = (Inr Resolved, s)"
    using assms(1) f2 by (simp add: setLED_def send_limited_cases [OF stop_led_encodes])
  show ?thesis
    using assms(1) m l by (simp add: stopAll_def)
qed

section \<open>Properties of the handshake\<close>

lemma setLED_cmd_shape:
  "setLED_cmd id0 color third fourth =
     [JNum 0x55, JNum 0xaa, JNum 0x04,
      JNum (if color = 0 \<and> id0 = LedID_ALL then LedID_ALLSTOP else id0),
      JNum color, fourth, third]"
  by (simp add: setLED_cmd_def)

lemma sendPassword_send:
  "sendPassword s now =
     (case send s now UUID_CHARACTERISTIC_WRITE (u8_values (password_comment (variant s))) True of
        (Inl e, s1) \<Rightarrow> (Inl e, s1)
      | (Inr r, s1) \<Rightarrow> (Inr (), s1))"
  by (simp add: sendPassword_def password_decodes)

lemma sendPassword_transmits:
  "transmitted (snd (sendPassword s now)) =
     (if isConnected s \<and> fst (okayToSend now (rateLimiter s))
      then transmitted s @ [(UUID_SERVICE, UUID_CHARACTERISTIC_WRITE, password_base64 (variant s))]
      else transmitted s)"
proof -
  have "transmitted (snd (sendPassword s now)) =
        transmitted (snd (send s now UUID_CHARACTERISTIC_WRITE
                            (u8_values (password_comment (variant s))) True))"
    by (simp add: sendPassword_send split: prod.splits sum.splits)
  then show ?thesis
    by (simp add: send_limited_transmits password_encodes)
qed

lemma sendPassword_returns: "fst (sendPassword s now) = Inr ()"
  by (auto simp add: sendPassword_send send_def Let_def password_encodes
      split: prod.splits sum.splits)

lemma transmitted_startNotifications:
  "ble s = Some b \<Longrightarrow>
   transmitted (s\<lparr>ble := Some (ble_startNotifications service uuid b)\<rparr>) = transmitted s"
  by (simp add: transmitted_def ble_startNotifications_def)

lemma onConnect_transmits:
  "transmitted (snd (onConnect s now)) = transmitted (snd (sendPassword s now))"
  using sendPassword_returns [of s now]
  by (cases "sendPassword s now")
     (auto simp add: onConnect_def transmitted_startNotifications split: option.splits sum.splits)

section \<open>Decoding notifications\<close>

lemma u8_js_eq: "i < length data \<Longrightarrow> js_eq (u8_get data i) (JNum (uint (w :: 8 word))) = (data ! i = w)"
  by (simp add: u8_get_def word_uint_eq_iff)

text \<open>
  C1. Whatever bytes \<open>data\<close> a notification carries, \<open>_onMessage\<close> accepts the frame
  exactly when it is 8 bytes long and starts with 0x55, 0xAA, 0x05. An accepted frame sets
  the colour to byte 4, the first infrared reading to byte 5, on the X robot the second
  infrared reading to byte 6, and the power to byte 7. A rejected frame adds one line to the
  console and changes nothing else, so every sensor field keeps its value. In both cases
  the call returns normally. The hypothesis names the bytes the notification string
  decodes to; by \<open>uint8Array_roundtrip\<close> every byte array is the decoding of some string.
\<close>

theorem onMessage_frame:
  assumes "base64ToUint8Array base64 = Some data"
  shows "onMessage s base64 =
    (if length data = 8 \<and> data ! 0 = 0x55 \<and> data ! 1 = 0xaa \<and> data ! 2 = 0x05
     then (Inr (),
           case variant s of
             ApitorQ \<Rightarrow> s\<lparr>sensorColor := JNum (uint (data ! 4)),
                          sensorInfrared1 := JNum (uint (data ! 5)),
                          sensorPower := JNum (uint (data ! 7))\<rparr>
           | ApitorX \<Rightarrow> s\<lparr>sensorColor := JNum (uint (data ! 4)),
                          sensorInfrared1 := JNum (uint (data ! 5)),
                          sensorInfrared2 := JNum (uint (data ! 6)),
                          sensorPower := JNum (uint (data ! 7))\<rparr>)
     else (Inr (), s\<lparr>console := console s @ [data]\<rparr>))"
proof (cases "length data = 8")
  case True
  have m: "js_eq (u8_get data 0) (JNum 0x55) = (data ! 0 = 0x55)"
          "js_eq (u8_get data 1) (JNum 0xaa) = (data ! 1 = 0xaa)"
          "js_eq (u8_get data 2) (JNum 0x05) = (data ! 2 = 0x05)"
    using True u8_js_eq [of 0 data "0x55"] u8_js_eq [of 1 data "0xaa"] u8_js_eq [of 2 data "0x05"]
    by simp_all
  have g: "u8_get data 4 = JNum (uint (data ! 4))" "u8_get data 5 = JNum (uint (data ! 5))"
          "u8_get data 6 = JNum (uint (data ! 6))" "u8_get data 7 = JNum (uint (data ! 7))"
    using True by (simp_all add: u8_get_def)
  show ?thesis
    unfolding onMessage_def assms option.case m g
    using True by (cases "variant s") simp_all
next
  case False
  then show ?thesis using assms by (simp add: onMessage_def)
qed

text \<open>
  The two notification scenarios of the spec: a valid frame with colour 3, infrared 7 and
  power 9, and a frame of length 4.
\<close>

theorem onMessage_frame_witness:
  "base64ToUint8Array ''VaoFAAMHAAk='' = Some [0x55, 0xaa, 0x05, 0x00, 0x03, 0x07, 0x00, 0x09] \<and>
   onMessage (new_peripheral ApitorQ 0) ''VaoFAAMHAAk='' =
     (Inr (), (new_peripheral ApitorQ 0)\<lparr>sensorColor := JNum 3, sensorInfrared1 := JNum 7,
                                          sensorPower := JNum 9\<rparr>) \<and>
   base64ToUint8Array ''VaoFAA=='' = Some [0x55, 0xaa, 0x05, 0x00] \<and>
   onMessage (new_peripheral ApitorQ 0) ''VaoFAA=='' =
     (Inr (), (new_peripheral ApitorQ 0)\<lparr>console := [[0x55, 0xaa, 0x05, 0x00]]\<rparr>)"
proof -
  have a: "base64ToUint8Array ''VaoFAAMHAAk='' = Some [0x55, 0xaa, 0x05, 0x00, 0x03, 0x07, 0x00, 0x09]"
    by (simp add: base64ToUint8Array_def strip_padding_def is_ascii_whitespace_def b64_value_def)
  have b: "base64ToUint8Array ''VaoFAA=='' = Some [0x55, 0xaa, 0x05, 0x00]"
    by (simp add: base64ToUint8Array_def strip_padding_def is_ascii_whitespace_def b64_value_def)
  show ?thesis
    using a b onMessage_frame [OF a, of "new_peripheral ApitorQ 0"]
      onMessage_frame [OF b, of "new_peripheral ApitorQ 0"]
    by (simp add: new_peripheral_def)
qed

section \<open>Motor frames\<close>

text \<open>
  C2. For every motor id and every integer speed (so for every speed from -16 to 16),
  \<open>setMotor\<close> hands \<open>send\<close> the 6 element frame 0x55, 0xAA, 0x03, target id, direction,
  magnitude. The direction is the stop code 0x00 exactly when the speed is 0, the code D1
  (0x01) exactly when it is positive and the code D2 (0x02) exactly when it is negative; the
  magnitude is the absolute value of the speed. The target id is the motor id, replaced
  by the all-stop id for all motors at speed 0. \<open>setMotor (M1, -5)\<close> gives
  0x55, 0xAA, 0x03, M1, D2, 5.
\<close>

theorem setMotor_frame:
  "setMotor s now motorId speed =
     send s now UUID_CHARACTERISTIC_WRITE (setMotor_cmd motorId speed) True \<and>
   setMotor_cmd motorId speed =
     [JNum 0x55, JNum 0xaa, JNum 0x03,
      JNum (if speed = 0 \<and> motorId = MotorID_ALL then MotorID_ALLSTOP else motorId),
      setMotor_cmd motorId speed ! 4, JNum \<bar>speed\<bar>] \<and>
   (setMotor_cmd motorId speed ! 4 = JNum MotorDirectionID_STOP) = (speed = 0) \<and>
   (setMotor_cmd motorId speed ! 4 = JNum MotorDirectionID_D1) = (speed > 0) \<and>
   (setMotor_cmd motorId speed ! 4 = JNum MotorDirectionID_D2) = (speed < 0) \<and>
   MotorDirectionID_STOP = 0x00 \<and> MotorDirectionID_D1 = 0x01 \<and> MotorDirectionID_D2 = 0x02 \<and>
   setMotor_cmd MotorID_M1 (- 5) =
     [JNum 0x55, JNum 0xaa, JNum 0x03, JNum MotorID_M1, JNum MotorDirectionID_D2, JNum 5]"
proof -
  have dir: "setMotor_cmd motorId speed ! 4 =
      JNum (if speed > 0 then MotorDirectionID_D1
            else if speed = 0 then MotorDirectionID_STOP else MotorDirectionID_D2)"
    by (simp add: setMotor_cmd_shape)
  have frame: "setMotor_cmd motorId speed =
     [JNum 0x55, JNum 0xaa, JNum 0x03,
      JNum (if speed = 0 \<and> motorId = MotorID_ALL then MotorID_ALLSTOP else motorId),
      setMotor_cmd motorId speed ! 4, JNum \<bar>speed\<bar>]"
    unfolding dir by (rule setMotor_cmd_shape)
  have stop: "(setMotor_cmd motorId speed ! 4 = JNum MotorDirectionID_STOP) = (speed = 0)"
    unfolding dir by (simp add: enum_defs)
  have fwd: "(setMotor_cmd motorId speed ! 4 = JNum MotorDirectionID_D1) = (speed > 0)"
    unfolding dir by (simp add: enum_defs)
  have bwd: "(setMotor_cmd motorId speed ! 4 = JNum MotorDirectionID_D2) = (speed < 0)"
    unfolding dir by (simp add: enum_defs)
  have m1: "setMotor_cmd MotorID_M1 (- 5) =
     [JNum 0x55, JNum 0xaa, JNum 0x03, JNum MotorID_M1, JNum MotorDirectionID_D2, JNum 5]"
    by (simp add: setMotor_cmd_shape enum_defs)
  have codes: "MotorDirectionID_STOP = 0x00" "MotorDirectionID_D1 = 0x01"
    "MotorDirectionID_D2 = 0x02"
    by (simp_all add: enum_defs)
  have snd: "setMotor s now motorId speed =
     send s now UUID_CHARACTERISTIC_WRITE (setMotor_cmd motorId speed) True"
    by (simp add: setMotor_def)
  from snd frame stop fwd bwd codes m1 show ?thesis by blast
qed

section \<open>The handshake and the rate limiter\<close>

text \<open>
  The claim C3 as the spec states it (the password write is transmitted however many
  sends the window has counted) fails: a connected peripheral whose window already holds
  20 sends subscribes to the notifications on connect, but hands no write to the transport.
\<close>

theorem password_write_counterexample:
  "isConnected ((new_peripheral ApitorQ 0)
      \<lparr>ble := Some \<lparr>connected = True, written = [], notifications = []\<rparr>,
       rateLimiter := \<lparr>maxRate = 20, sendCount = 20, windowStart = 0\<rparr>\<rparr>) \<and>
   onConnect ((new_peripheral ApitorQ 0)
      \<lparr>ble := Some \<lparr>connected = True, written = [], notifications = []\<rparr>,
       rateLimiter := \<lparr>maxRate = 20, sendCount = 20, windowStart = 0\<rparr>\<rparr>) 500 =
     (Inr (),
      (new_peripheral ApitorQ 0)
      \<lparr>ble := Some \<lparr>connected = True, written = [],
                     notifications = [(UUID_SERVICE, UUID_CHARACTERISTIC_READ_NOTIFY)]\<rparr>,
       rateLimiter := \<lparr>maxRate = 20, sendCount = 20, windowStart = 0\<rparr>\<rparr>)"
  by (simp add: new_peripheral_def isConnected_def onConnect_def sendPassword_send send_def
      okayToSend_def ble_startNotifications_def)

text \<open>
  C3, amended. \<open>_sendPassword\<close> calls \<open>send\<close> with the default \<open>useLimiter = true\<close>, so
  the password write is gated like every other write: it is handed to the transport
  exactly when the peripheral is connected and the rate limiter admits the send, and is
  dropped without an error otherwise; \<open>_onConnect\<close> transmits nothing else. The
  actuator commands \<open>setMotor\<close> and \<open>setLED\<close> transmit nothing when the limiter rejects.
\<close>

theorem password_write_rate_limited:
  "transmitted (snd (sendPassword s now)) =
     (if isConnected s \<and> fst (okayToSend now (rateLimiter s))
      then transmitted s @ [(UUID_SERVICE, UUID_CHARACTERISTIC_WRITE, password_base64 (variant s))]
      else transmitted s) \<and>
   transmitted (snd (onConnect s now)) = transmitted (snd (sendPassword s now)) \<and>
   fst (sendPassword s now) = Inr () \<and>
   (\<not> fst (okayToSend now (rateLimiter s)) \<longrightarrow>
      transmitted (snd (setMotor s now motorId speed)) = transmitted s \<and>
      transmitted (snd (setLED s now ledId color offTime onTime)) = transmitted s)"
proof -
  have act: "transmitted (snd (setMotor s now motorId speed)) = transmitted s"
       "transmitted (snd (setLED s now ledId color offTime onTime)) = transmitted s"
    if "\<not> fst (okayToSend now (rateLimiter s))"
    using that by (simp_all add: setMotor_def setLED_def send_limited_transmits)
  from sendPassword_transmits [of s now] onConnect_transmits [of s now]
    sendPassword_returns [of s now] act
  show ?thesis by blast
qed

text \<open>An X robot with a full window, and one with an empty window.\<close>

theorem password_write_rate_limited_witness:
  "transmitted (snd (sendPassword ((new_peripheral ApitorX 0)
      \<lparr>ble := Some \<lparr>connected = True, written = [], notifications = []\<rparr>,
       rateLimiter := \<lparr>maxRate = 20, sendCount = 20, windowStart = 0\<rparr>\<rparr>) 500)) = [] \<and>
   transmitted (snd (setMotor ((new_peripheral ApitorX 0)
      \<lparr>ble := Some \<lparr>connected = True, written = [], notifications = []\<rparr>,
       rateLimiter := \<lparr>maxRate = 20, sendCount = 20, windowStart = 0\<rparr>\<rparr>) 500 MotorID_M3 4)) = [] \<and>
   transmitted (snd (setLED ((new_peripheral ApitorX 0)
      \<lparr>ble := Some \<lparr>connected = True, written = [], notifications = []\<rparr>,
       rateLimiter := \<lparr>maxRate = 20, sendCount = 20, windowStart = 0\<rparr>\<rparr>) 500 LedID_L1
        LedColorID_RED (JNum 0) (JNum 0))) = [] \<and>
   transmitted (snd (sendPassword ((new_peripheral ApitorX 0)
      \<lparr>ble := Some \<lparr>connected = True, written = [], notifications = []\<rparr>\<rparr>) 500)) =
     [(UUID_SERVICE, UUID_CHARACTERISTIC_WRITE, ''VaoRIFVJTThMVnlSbnVwaXNlQnY='')]"
  using password_write_rate_limited [of "(new_peripheral ApitorX 0)
      \<lparr>ble := Some \<lparr>connected = True, written = [], notifications = []\<rparr>,
       rateLimiter := \<lparr>maxRate = 20, sendCount = 20, windowStart = 0\<rparr>\<rparr>" 500 MotorID_M3 4
      LedID_L1 LedColorID_RED "JNum 0" "JNum 0"]
    password_write_rate_limited [of "(new_peripheral ApitorX 0)
      \<lparr>ble := Some \<lparr>connected = True, written = [], notifications = []\<rparr>\<rparr>" 500 MotorID_M3 4
      LedID_L1 LedColorID_RED "JNum 0" "JNum 0"]
  by (simp add: new_peripheral_def new_RateLimiter_def BLESendRateMax_def isConnected_def
      okayToSend_def transmitted_def password_base64_def)

section \<open>The blink block\<close>

text \<open>
  For every argument record the block hands \<open>send\<close> a frame with OFF_TIME at index 5
  and ON_TIME at index 6.
\<close>

lemma commandSetLedBlink_frame:
  "commandSetLedBlink s now args =
     (case send s now UUID_CHARACTERISTIC_WRITE
             [JNum 0x55, JNum 0xaa, JNum 0x04,
              JNum (if wrapClamp (LED_COLOR_ID args) 0 7 = 0 \<and> LED_ID args = LedID_ALL
                    then LedID_ALLSTOP else LED_ID args),
              JNum (wrapClamp (LED_COLOR_ID args) 0 7),
              JNum (OFF_TIME args), JNum (ON_TIME args)] True of
        (Inl e, s1) \<Rightarrow> (Inl e, s1)
      | (Inr r, s1) \<Rightarrow> (Inr (Timeout BLESendInterval), s1))"
  unfolding commandSetLedBlink_def setLED_def setLED_cmd_shape Let_def by (rule refl)

text \<open>
  C4. The blink block with ON_TIME 5 and OFF_TIME 2 on LED 1 in red, on a connected Q
  robot: the frame handed to the transport is 0x55, 0xAA, 0x04, 1, 1, 2, 5. ON_TIME is at
  index 6 and OFF_TIME at index 5, since \<open>setLED\<close> declares \<open>offTime\<close> before \<open>onTime\<close>
  and the block passes \<open>ontime\<close> before \<open>offtime\<close>.
\<close>

theorem commandSetLedBlink_tick_order:
  "commandSetLedBlink
     ((new_peripheral ApitorQ 0)\<lparr>ble := Some \<lparr>connected = True, written = [], notifications = []\<rparr>\<rparr>)
     0 \<lparr>LED_ID = 1, LED_COLOR_ID = 1, ON_TIME = 5, OFF_TIME = 2\<rparr> =
     (Inr (Timeout 100),
      (new_peripheral ApitorQ 0)
        \<lparr>ble := Some \<lparr>connected = True,
                       written = [(UUID_SERVICE, UUID_CHARACTERISTIC_WRITE, ''VaoEAQECBQ=='')],
                       notifications = []\<rparr>,
         rateLimiter := \<lparr>maxRate = 20, sendCount = 1, windowStart = 0\<rparr>\<rparr>) \<and>
   base64ToUint8Array ''VaoEAQECBQ=='' = Some [0x55, 0xaa, 0x04, 1, 1, 2, 5] \<and>
   setLED_cmd 1 1 (JNum 5) (JNum 2) =
     [JNum 0x55, JNum 0xaa, JNum 0x04, JNum 1, JNum 1, JNum 2, JNum 5]"
proof -
  have enc: "uint8ArrayToBase64 (setLED_cmd 1 1 (JNum 5) (JNum 2)) = Some ''VaoEAQECBQ==''"
    by (simp add: uint8ArrayToBase64_def setLED_cmd_shape btoa_def b64_padding_def b64_char_def char_of_def bit_0)
  have dec: "base64ToUint8Array ''VaoEAQECBQ=='' = Some [0x55, 0xaa, 0x04, 1, 1, 2, 5]"
    by (simp add: base64ToUint8Array_def strip_padding_def is_ascii_whitespace_def b64_value_def)
  have run: "commandSetLedBlink
     ((new_peripheral ApitorQ 0)\<lparr>ble := Some \<lparr>connected = True, written = [], notifications = []\<rparr>\<rparr>)
     0 \<lparr>LED_ID = 1, LED_COLOR_ID = 1, ON_TIME = 5, OFF_TIME = 2\<rparr> =
     (Inr (Timeout 100),
      (new_peripheral ApitorQ 0)
        \<lparr>ble := Some \<lparr>connected = True,
                       written = [(UUID_SERVICE, UUID_CHARACTERISTIC_WRITE, ''VaoEAQECBQ=='')],
                       notifications = []\<rparr>,
         rateLimiter := \<lparr>maxRate = 20, sendCount = 1, windowStart = 0\<rparr>\<rparr>)"
    by (simp add: commandSetLedBlink_def wrapClamp_def setLED_def send_def enc
        new_peripheral_def new_RateLimiter_def BLESendRateMax_def BLESendInterval_def
        isConnected_def okayToSend_def ble_write_def)
  from run dec show ?thesis by (simp add: setLED_cmd_shape)
qed

section \<open>All-stop substitution\<close>

text \<open>
  C5. \<open>setLED\<close> with target ALL and colour 0 encodes the LED all-stop id 0x03, not the
  all id 0x04; \<open>setMotor\<close> with target ALL and magnitude 0 encodes the motor all-stop id
  0x10, not the all id 0x09. With any other target, or a non-zero colour or magnitude, the
  target id is encoded as given.
\<close>

theorem all_stop_substitution:
  "setLED_cmd LedID_ALL 0 offTime onTime ! 3 = JNum LedID_ALLSTOP \<and>
   setMotor_cmd MotorID_ALL 0 ! 3 = JNum MotorID_ALLSTOP \<and>
   LedID_ALLSTOP = 0x03 \<and> LedID_ALL = 0x04 \<and> MotorID_ALLSTOP = 0x10 \<and> MotorID_ALL = 0x09 \<and>
   (ledId \<noteq> LedID_ALL \<or> color \<noteq> 0 \<longrightarrow> setLED_cmd ledId color offTime onTime ! 3 = JNum ledId) \<and>
   (motorId \<noteq> MotorID_ALL \<or> \<bar>speed\<bar> \<noteq> 0 \<longrightarrow> setMotor_cmd motorId speed ! 3 = JNum motorId)"
  by (simp add: setLED_cmd_def setMotor_cmd_def enum_defs)

text \<open>The substitution and the pass-through at the ids and colours of the source.\<close>

theorem all_stop_substitution_witness:
  "setLED_cmd LedID_ALL 0 (JNum 0) (JNum 0) ! 3 = JNum 3 \<and>
   setMotor_cmd MotorID_ALL 0 ! 3 = JNum 16 \<and>
   setLED_cmd LedID_ALL LedColorID_RED (JNum 0) (JNum 0) ! 3 = JNum 4 \<and>
   setLED_cmd LedID_L1 0 (JNum 0) (JNum 0) ! 3 = JNum 1 \<and>
   setMotor_cmd MotorID_ALL 7 ! 3 = JNum 9 \<and>
   setMotor_cmd MotorID_M2 0 ! 3 = JNum 7"
  using all_stop_substitution [of "JNum 0" "JNum 0" LedID_ALL LedColorID_RED MotorID_ALL 7]
    all_stop_substitution [of "JNum 0" "JNum 0" LedID_L1 0 MotorID_M2 0]
  unfolding enum_defs by simp

section \<open>The ceiling of the rate limiter\<close>

text \<open>
  C6. A rate limiter built with \<open>BLESendRateMax\<close> at the start of a window answers true
  to 20 calls made within that window and has then counted 20 sends; a 21st call within
  the same window answers false and leaves the limiter as it was; a call made once the
  window has elapsed answers true again and opens a new window.
\<close>

theorem rate_limiter_ceiling:
  assumes "maxRate l = BLESendRateMax" and "sendCount l = 0"
    and "length ts = 20" and "\<forall>t\<in>set ts. t < windowStart l + 1000"
    and "t21 < windowStart l + 1000" and "windowStart l + 1000 \<le> t'"
  shows "okayToSend_calls ts l = (replicate 20 True, l\<lparr>sendCount := 20\<rparr>) \<and>
         okayToSend t21 (l\<lparr>sendCount := 20\<rparr>) = (False, l\<lparr>sendCount := 20\<rparr>) \<and>
         okayToSend t' (l\<lparr>sendCount := 20\<rparr>) = (True, l\<lparr>sendCount := 1, windowStart := t'\<rparr>)"
proof -
  have "okayToSend_calls ts l =
          (replicate (length ts) True, l\<lparr>sendCount := sendCount l + length ts\<rparr>)"
    using assms by (intro okayToSend_calls_room) (simp_all add: BLESendRateMax_def)
  then have calls: "okayToSend_calls ts l = (replicate 20 True, l\<lparr>sendCount := 20\<rparr>)"
    using assms by simp
  have full: "okayToSend t21 (l\<lparr>sendCount := 20\<rparr>) = (False, l\<lparr>sendCount := 20\<rparr>)"
    using assms by (intro okayToSend_full) (simp_all add: BLESendRateMax_def)
  have again: "okayToSend t' (l\<lparr>sendCount := 20\<rparr>) = (True, l\<lparr>sendCount := 1, windowStart := t'\<rparr>)"
    using assms okayToSend_elapsed [of "l\<lparr>sendCount := 20\<rparr>" t']
    by (simp add: BLESendRateMax_def)
  from calls full again show ?thesis by blast
qed

text \<open>Twenty calls in the first second after construction, then one more, then one a second later.\<close>

theorem rate_limiter_ceiling_witness:
  "okayToSend_calls [0, 10, 20, 30, 40, 50, 60, 70, 80, 90, 100, 200, 300, 400, 500, 600, 700,
                     800, 900, 999] (new_RateLimiter BLESendRateMax 0) =
     (replicate 20 True, \<lparr>maxRate = 20, sendCount = 20, windowStart = 0\<rparr>) \<and>
   okayToSend 999 \<lparr>maxRate = 20, sendCount = 20, windowStart = 0\<rparr> =
     (False, \<lparr>maxRate = 20, sendCount = 20, windowStart = 0\<rparr>) \<and>
   okayToSend 1000 \<lparr>maxRate = 20, sendCount = 20, windowStart = 0\<rparr> =
     (True, \<lparr>maxRate = 20, sendCount = 1, windowStart = 1000\<rparr>)"
  using rate_limiter_ceiling [of "new_RateLimiter BLESendRateMax 0"
      "[0, 10, 20, 30, 40, 50, 60, 70, 80, 90, 100, 200, 300, 400, 500, 600, 700,
        800, 900, 999]" 999 1000]
  by (simp add: new_RateLimiter_def BLESendRateMax_def)

section \<open>Dropped sends\<close>

text \<open>
  C7. When the peripheral is not connected, \<open>send\<close> returns a resolved promise and
  leaves the whole state as it was. When it is connected and the rate limiter rejects the
  send, \<open>send\<close> returns a resolved promise as well, nothing is handed to the transport,
  and only the limiter's own state may differ (it does not for a limiter with a positive
  ceiling). No error is raised in either case and the state holds no queue of dropped
  messages.
\<close>

theorem send_drops_silently:
  "(\<not> isConnected s \<longrightarrow> send s now uuid message useLimiter = (Inr Resolved, s)) \<and>
   (isConnected s \<and> \<not> fst (okayToSend now (rateLimiter s)) \<longrightarrow>
      send s now uuid message True =
        (Inr Resolved, s\<lparr>rateLimiter := snd (okayToSend now (rateLimiter s))\<rparr>) \<and>
      transmitted (snd (send s now uuid message True)) = transmitted s \<and>
      (0 < maxRate (rateLimiter s) \<longrightarrow> send s now uuid message True = (Inr Resolved, s)))"
proof -
  have a: "\<not> isConnected s \<longrightarrow> send s now uuid message useLimiter = (Inr Resolved, s)"
    by (simp add: send_not_connected)
  have b: "send s now uuid message True =
        (Inr Resolved, s\<lparr>rateLimiter := snd (okayToSend now (rateLimiter s))\<rparr>)"
    if "isConnected s" "\<not> fst (okayToSend now (rateLimiter s))"
    using that by (rule send_rejected)
  have c: "send s now uuid message True = (Inr Resolved, s)"
    if "isConnected s" "\<not> fst (okayToSend now (rateLimiter s))" "0 < maxRate (rateLimiter s)"
    using that b okayToSend_False_unchanged [of "rateLimiter s" now] by simp
  from a b c show ?thesis by (simp add: send_limited_transmits)
qed

text \<open>A peripheral that never scanned, and a connected one whose window is full.\<close>

theorem send_drops_silently_witness:
  "send (new_peripheral ApitorQ 0) 5 UUID_CHARACTERISTIC_WRITE (setMotor_cmd MotorID_M1 3) True =
     (Inr Resolved, new_peripheral ApitorQ 0) \<and>
   send ((new_peripheral ApitorQ 0)
          \<lparr>ble := Some \<lparr>connected = True, written = [], notifications = []\<rparr>,
           rateLimiter := \<lparr>maxRate = 20, sendCount = 20, windowStart = 0\<rparr>\<rparr>)
        500 UUID_CHARACTERISTIC_WRITE (setMotor_cmd MotorID_M1 3) True =
     (Inr Resolved,
      (new_peripheral ApitorQ 0)
          \<lparr>ble := Some \<lparr>connected = True, written = [], notifications = []\<rparr>,
           rateLimiter := \<lparr>maxRate = 20, sendCount = 20, windowStart = 0\<rparr>\<rparr>)"
  using send_drops_silently [of "new_peripheral ApitorQ 0" 5 UUID_CHARACTERISTIC_WRITE
      "setMotor_cmd MotorID_M1 3" True]
    send_drops_silently [of "(new_peripheral ApitorQ 0)
          \<lparr>ble := Some \<lparr>connected = True, written = [], notifications = []\<rparr>,
           rateLimiter := \<lparr>maxRate = 20, sendCount = 20, windowStart = 0\<rparr>\<rparr>" 500
      UUID_CHARACTERISTIC_WRITE "setMotor_cmd MotorID_M1 3" True]
  by (simp add: new_peripheral_def isConnected_def okayToSend_def)

section \<open>Disconnecting\<close>

text \<open>
  C8. After \<open>disconnect\<close> the colour, the infrared reading(s) and the power are zero; a
  second \<open>disconnect\<close> gives the same state as the first; without a transport object
  the call only resets the sensors.
\<close>

theorem disconnect_idempotent:
  "sensorColor (disconnect s) = JNum 0 \<and> sensorInfrared1 (disconnect s) = JNum 0 \<and>
   sensorPower (disconnect s) = JNum 0 \<and>
   (variant s = ApitorX \<longrightarrow> sensorInfrared2 (disconnect s) = JNum 0) \<and>
   disconnect (disconnect s) = disconnect s \<and>
   (ble s = None \<longrightarrow> disconnect s = reset s) \<and>
   \<not> isConnected (disconnect s)"
  by (cases "variant s"; cases "ble s")
     (simp_all add: disconnect_def reset_def ble_disconnect_def isConnected_def)

text \<open>A connected X robot with a stale reading, and a Q robot that never scanned.\<close>

theorem disconnect_idempotent_witness:
  "sensorInfrared2 (disconnect ((new_peripheral ApitorX 0)
      \<lparr>ble := Some \<lparr>connected = True, written = [], notifications = []\<rparr>,
       sensorInfrared2 := JNum 9\<rparr>)) = JNum 0 \<and>
   disconnect (new_peripheral ApitorQ 0) = new_peripheral ApitorQ 0"
  using disconnect_idempotent [of "(new_peripheral ApitorX 0)
      \<lparr>ble := Some \<lparr>connected = True, written = [], notifications = []\<rparr>,
       sensorInfrared2 := JNum 9\<rparr>"]
    disconnect_idempotent [of "new_peripheral ApitorQ 0"]
  by (simp add: new_peripheral_def reset_def)

section \<open>The password frame\<close>

text \<open>
  The claim C9 as the spec states it (18 bytes) fails: both password literals decode to
  20 bytes.
\<close>

theorem password_length_counterexample:
  "map_option length (base64ToUint8Array (password_base64 ApitorQ)) = Some 20 \<and>
   map_option length (base64ToUint8Array (password_base64 ApitorX)) = Some 20 \<and>
   map_option length (base64ToUint8Array (password_base64 ApitorQ)) \<noteq> Some 18"
  by (simp add: password_decodes password_comment_def)

text \<open>
  C9, amended. The password frame of either robot is 20 bytes long and begins with
  0x55, 0xAA, 0x11; its third byte, 17, is the number of bytes that follow it. The bytes
  are those the comments of the source give.
\<close>

theorem password_frame:
  "base64ToUint8Array (password_base64 v) = Some (password_comment v) \<and>
   length (password_comment v) = 20 \<and>
   take 3 (password_comment v) = [0x55, 0xaa, 0x11] \<and>
   unat (password_comment v ! 2) = length (password_comment v) - 3"
  by (cases v) (simp_all add: password_decodes password_comment_def)

section \<open>Stopping everything\<close>

text \<open>
  C10. \<open>stopAll\<close> on a peripheral that is not connected sends nothing and changes
  nothing. On a connected one it issues \<open>setMotor (ALL, 0)\<close> and then
  \<open>setLED (ALL, OFF)\<close> with both tick arguments undefined, and raises no error. Each of
  the two goes through the rate limiter: the transport receives the motor frame only if
  the limiter admits the first send and the LED frame only if it admits the second, and a
  rejected frame is not kept anywhere. When the window has already counted the ceiling of
  20 sends and both calls fall within it, neither frame is sent and the state is unchanged.
\<close>

theorem stopAll_rate_limited:
  "(\<not> isConnected s \<longrightarrow> stopAll s t1 t2 = (Inr (), s)) \<and>
   (isConnected s \<longrightarrow>
      stopAll s t1 t2 =
        (Inr (), snd (setLED (snd (setMotor s t1 MotorID_ALL 0)) t2 LedID_ALL LedColorID_OFF
                        JUndefined JUndefined)) \<and>
      transmitted (snd (stopAll s t1 t2)) =
        transmitted s
        @ (if fst (okayToSend t1 (rateLimiter s))
           then [(UUID_SERVICE, UUID_CHARACTERISTIC_WRITE, ''VaoDEAAA'')] else [])
        @ (if fst (okayToSend t2 (snd (okayToSend t1 (rateLimiter s))))
           then [(UUID_SERVICE, UUID_CHARACTERISTIC_WRITE, ''VaoEAwAAAA=='')] else [])) \<and>
   (isConnected s \<and> maxRate (rateLimiter s) = BLESendRateMax \<and>
    BLESendRateMax \<le> sendCount (rateLimiter s) \<and>
    t1 < windowStart (rateLimiter s) + 1000 \<and> t2 < windowStart (rateLimiter s) + 1000 \<longrightarrow>
      stopAll s t1 t2 = (Inr (), s)) \<and>
   setMotor_cmd MotorID_ALL 0 =
     [JNum 0x55, JNum 0xaa, JNum 0x03, JNum MotorID_ALLSTOP, JNum MotorDirectionID_STOP, JNum 0] \<and>
   setLED_cmd LedID_ALL LedColorID_OFF JUndefined JUndefined =
     [JNum 0x55, JNum 0xaa, JNum 0x04, JNum LedID_ALLSTOP, JNum LedColorID_OFF,
      JUndefined, JUndefined] \<and>
   uint8ArrayToBase64 (setMotor_cmd MotorID_ALL 0) = Some ''VaoDEAAA'' \<and>
   uint8ArrayToBase64 (setLED_cmd LedID_ALL LedColorID_OFF JUndefined JUndefined) =
     Some ''VaoEAwAAAA==''"
proof -
  have a: "\<not> isConnected s \<longrightarrow> stopAll s t1 t2 = (Inr (), s)"
    by (simp add: stopAll_def)
  have d: "stopAll s t1 t2 = (Inr (), s)"
    if "isConnected s" "maxRate (rateLimiter s) = BLESendRateMax"
       "BLESendRateMax \<le> sendCount (rateLimiter s)"
       "t1 < windowStart (rateLimiter s) + 1000" "t2 < windowStart (rateLimiter s) + 1000"
    using that by (intro stopAll_full_window) (simp_all add: BLESendRateMax_def)
  have e: "setMotor_cmd MotorID_ALL 0 =
     [JNum 0x55, JNum 0xaa, JNum 0x03, JNum MotorID_ALLSTOP, JNum MotorDirectionID_STOP, JNum 0]"
    by (simp add: setMotor_cmd_shape enum_defs)
  have f: "setLED_cmd LedID_ALL LedColorID_OFF JUndefined JUndefined =
     [JNum 0x55, JNum 0xaa, JNum 0x04, JNum LedID_ALLSTOP, JNum LedColorID_OFF,
      JUndefined, JUndefined]"
    by (simp add: setLED_cmd_def enum_defs)
  from a stopAll_connected [of s t1 t2] stopAll_transmits [of s t1 t2] d e f
    stop_motor_encodes stop_led_encodes
  show ?thesis by blast
qed

text \<open>
  Not connected; connected with a full window; with one send left in the window; with an
  empty window.
\<close>

theorem stopAll_rate_limited_witness:
  "stopAll (new_peripheral ApitorQ 0) 5 5 = (Inr (), new_peripheral ApitorQ 0) \<and>
   stopAll ((new_peripheral ApitorQ 0)
      \<lparr>ble := Some \<lparr>connected = True, written = [], notifications = []\<rparr>,
       rateLimiter := \<lparr>maxRate = 20, sendCount = 20, windowStart = 0\<rparr>\<rparr>) 500 501 =
     (Inr (), (new_peripheral ApitorQ 0)
      \<lparr>ble := Some \<lparr>connected = True, written = [], notifications = []\<rparr>,
       rateLimiter := \<lparr>maxRate = 20, sendCount = 20, windowStart = 0\<rparr>\<rparr>) \<and>
   transmitted (snd (stopAll ((new_peripheral ApitorQ 0)
      \<lparr>ble := Some \<lparr>connected = True, written = [], notifications = []\<rparr>,
       rateLimiter := \<lparr>maxRate = 20, sendCount = 19, windowStart = 0\<rparr>\<rparr>) 500 501)) =
     [(UUID_SERVICE, UUID_CHARACTERISTIC_WRITE, ''VaoDEAAA'')] \<and>
   transmitted (snd (stopAll ((new_peripheral ApitorQ 0)
      \<lparr>ble := Some \<lparr>connected = True, written = [], notifications = []\<rparr>\<rparr>) 500 501)) =
     [(UUID_SERVICE, UUID_CHARACTERISTIC_WRITE, ''VaoDEAAA''),
      (UUID_SERVICE, UUID_CHARACTERISTIC_WRITE, ''VaoEAwAAAA=='')]"
proof -
  let ?b = "Some \<lparr>connected = True, written = [], notifications = []\<rparr>"
  have 1: "stopAll (new_peripheral ApitorQ 0) 5 5 = (Inr (), new_peripheral ApitorQ 0)"
    by (rule stopAll_rate_limited [THEN conjunct1, THEN mp])
       (simp add: new_peripheral_def isConnected_def)
  have 2: "stopAll ((new_peripheral ApitorQ 0)
      \<lparr>ble := ?b, rateLimiter := \<lparr>maxRate = 20, sendCount = 20, windowStart = 0\<rparr>\<rparr>) 500 501 =
     (Inr (), (new_peripheral ApitorQ 0)
      \<lparr>ble := ?b, rateLimiter := \<lparr>maxRate = 20, sendCount = 20, windowStart = 0\<rparr>\<rparr>)"
    by (rule stopAll_rate_limited [THEN conjunct2, THEN conjunct2, THEN conjunct1, THEN mp])
       (simp add: isConnected_def BLESendRateMax_def)
  have 3: "transmitted (snd (stopAll ((new_peripheral ApitorQ 0)
      \<lparr>ble := ?b, rateLimiter := \<lparr>maxRate = 20, sendCount = 19, windowStart = 0\<rparr>\<rparr>) 500 501)) =
     [(UUID_SERVICE, UUID_CHARACTERISTIC_WRITE, ''VaoDEAAA'')]"
    by (subst stopAll_rate_limited [THEN conjunct2, THEN conjunct1, THEN mp, THEN conjunct2])
       (simp_all add: isConnected_def transmitted_def okayToSend_def)
  have 4: "transmitted (snd (stopAll ((new_peripheral ApitorQ 0)\<lparr>ble := ?b\<rparr>) 500 501)) =
     [(UUID_SERVICE, UUID_CHARACTERISTIC_WRITE, ''VaoDEAAA''),
      (UUID_SERVICE, UUID_CHARACTERISTIC_WRITE, ''VaoEAwAAAA=='')]"
    by (subst stopAll_rate_limited [THEN conjunct2, THEN conjunct1, THEN mp, THEN conjunct2])
       (simp_all add: isConnected_def transmitted_def okayToSend_def new_peripheral_def
        new_RateLimiter_def BLESendRateMax_def)
  from 1 2 3 4 show ?thesis by blast
qed

end
